theory Spec2Isabelle
  imports Main "HOL-Library.Sublist"
begin

section \<open>Data model of app/api/events.py\<close>

text \<open>
  Errors raised by the module, as values. Each carries the source dictionary's entry
  (the pointer, parameter or source string) and the detail text. The detail of an
  \<open>ObjectNotFound\<close> raised by a helper outside this file is \<open>None\<close>: its text is
  produced there. The last five constructors are the Python exceptions the module lets
  escape unhandled.
\<close>

datatype error =
    ForbiddenError string string
  | ConflictError string string
  | UnprocessableEntityError string string
  | ObjectNotFound string "string option"
  | KeyError string
  | AttributeError string
  | NoResultFound
  | MultipleResultsFound

text \<open>
  A key of the deserialised payload \<open>data\<close> is missing, present with \<open>None\<close>, or
  present with a value. \<open>get\<close> is \<open>dict.get\<close>: \<open>None\<close> for a missing key and for a
  stored \<open>None\<close>. \<open>store\<close> is the dictionary value written by \<open>data[k] = v\<close> for an
  attribute \<open>v\<close> that may be \<open>None\<close>.
\<close>

datatype 'a attr = Missing | Null | Value 'a

fun get :: "'a attr \<Rightarrow> 'a option" where
  "get Missing = None"
| "get Null = None"
| "get (Value v) = Some v"

fun store :: "'a option \<Rightarrow> 'a attr" where
  "store None = Null"
| "store (Some v) = Value v"

text \<open>
  Python truthiness of the values the module tests: a string is true when non-empty, an
  integer when non-zero, a datetime always, \<open>None\<close> never.
\<close>

fun truthy_str :: "string option \<Rightarrow> bool" where
  "truthy_str None = False"
| "truthy_str (Some s) = (s \<noteq> [])"

fun truthy_int :: "int option \<Rightarrow> bool" where
  "truthy_int None = False"
| "truthy_int (Some n) = (n \<noteq> 0)"

fun truthy_datetime :: "int option \<Rightarrow> bool" where
  "truthy_datetime None = False"
| "truthy_datetime (Some t) = True"

text \<open>
  Timestamps are instants, counted in microseconds since the epoch: the comparison of two
  aware datetimes and the comparison of their \<open>timestamp()\<close> values both order instants.
  The role-name constants imported from app.models.user are distinct names.
\<close>

datatype role_name =
    ATTENDEE | COORGANIZER | MARKETER | MODERATOR | ORGANIZER | OWNER
  | REGISTRAR | SALES_ADMIN | TRACK_ORGANIZER

record event =
  id' :: int
  identifier' :: string
  state :: string
  starts_at :: "int option"
  ends_at :: "int option"
  deleted_at :: "int option"
  original_image_url :: "string option"
  schedule_published_on :: "int option"
  ical_url :: "string option"
  xcal_url :: "string option"
  pentabarf_url :: "string option"
  event_type_id :: "int option"
  event_topic_id :: "int option"
  event_sub_topic_id :: "int option"
  discount_code_id :: "int option"
  orders :: "int list"

record data =
  name :: "string attr"
  state :: "string attr"
  starts_at :: "int attr"
  ends_at :: "int attr"
  deleted_at :: "int attr"
  original_image_url :: "string attr"

record user =
  id' :: int
  email :: string
  is_staff :: bool
  can_create_event :: bool
  can_publish_event :: bool

record role =
  id' :: int
  name :: role_name
  title_name :: string

record users_events_role =
  id' :: int
  event_id :: "int option"
  user_id :: int
  role_id :: int

text \<open>
  The owned sub-resources read by \<open>get_id\<close>: of each only the primary key, the
  alternate key (the column \<open>identifier\<close>, written \<open>identifier'\<close>; orders and invoices
  are fetched by it) and the owning-event reference are read.
\<close>

record owned =
  id' :: int
  identifier' :: string
  event_id :: "int option"

datatype model =
    Sponsor | UserFavouriteEvent | EventCopyright | Track | SessionType | FaqType
  | EventInvoice | DiscountCode | Session | SocialLink | Tax | StripeAuthorization
  | SpeakersCall | Ticket | TicketTag | RoleInvite | AccessCode | Speaker
  | EmailNotification | Microlocation | TicketHolder | CustomForms | Faq | Order
  | Feedback

record db =
  events :: "event list"
  users :: "user list"
  roles :: "role list"
  users_events_roles :: "users_events_role list"
  rows :: "model \<Rightarrow> owned list"

text \<open>
  The request context: the caller (\<open>None\<close> when anonymous, so that
  \<open>get_jwt_identity() is None\<close> and \<open>not is_logged_in()\<close> both read \<open>current_user = None\<close>),
  the HTTP method, and the answers of \<open>has_access\<close> (app.api.helpers.permission_manager,
  outside this file), one field per permission name the module asks for.
\<close>

record ctx =
  current_user :: "user option"
  request_method :: string
  is_admin :: bool
  is_super_admin :: bool
  is_user_itself :: "int \<Rightarrow> bool"
  is_coorganizer :: "int option \<Rightarrow> bool"

definition is_logged_in :: "ctx \<Rightarrow> bool" where
  "is_logged_in c = (current_user c \<noteq> None)"

section \<open>Lifecycle validator\<close>

definition validate_event :: "user \<Rightarrow> data \<Rightarrow> error + unit" where
  "validate_event u d =
     (if \<not> can_create_event u then
        Inl (ForbiddenError [] ''Please verify your Email'')
      else if get (data.state d) = Some ''published'' \<and> \<not> can_publish_event u then
        Inl (ForbiddenError [] ''Only verified accounts can publish events'')
      else if \<not> truthy_str (get (data.name d)) \<and> get (data.state d) = Some ''published'' then
        Inl (ConflictError ''/data/attributes/name''
               ''Event Name is required to publish the event'')
      else Inr ())"

text \<open>
  \<open>fill_dates\<close> is the first block of \<open>validate_date\<close>: with an existing event, a date
  key missing from the payload is set to the event's attribute.
\<close>

definition fill_dates :: "event option \<Rightarrow> data \<Rightarrow> data" where
  "fill_dates ev d =
     (case ev of
        None \<Rightarrow> d
      | Some e \<Rightarrow>
          (let d1 = (if data.starts_at d = Missing
                     then d\<lparr>data.starts_at := store (event.starts_at e)\<rparr> else d)
           in if data.ends_at d1 = Missing
              then d1\<lparr>data.ends_at := store (event.ends_at e)\<rparr> else d1))"

text \<open>
  \<open>validate_date now event data\<close>: \<open>now\<close> is the instant \<open>datetime.now()\<close> returns. The
  payload is mutated in place by the source, so the accepted payload is returned.
\<close>

definition validate_date :: "int \<Rightarrow> event option \<Rightarrow> data \<Rightarrow> error + data" where
  "validate_date now ev d0 =
     (let d = fill_dates ev d0 in
      case (get (data.starts_at d), get (data.ends_at d)) of
        (Some s, Some e) \<Rightarrow>
          if s \<ge> e then
            Inl (UnprocessableEntityError ''/data/attributes/ends-at''
                   ''ends-at should be after starts-at'')
          else if s \<le> now then
            (if ev \<noteq> None \<and> truthy_datetime (event.deleted_at (the ev))
                \<and> \<not> truthy_datetime (get (data.deleted_at d)) then
               Inr (d\<lparr>data.state := Value ''draft''\<rparr>)
             else if ev \<noteq> None \<and> \<not> truthy_datetime (event.deleted_at (the ev))
                \<and> truthy_datetime (get (data.deleted_at d)) then
               Inr d
             else
               Inl (UnprocessableEntityError ''/data/attributes/starts-at''
                      ''starts-at should be after current date-time''))
          else Inr d
      | _ \<Rightarrow>
          Inl (UnprocessableEntityError ''/data/attributes/date''
                 ''enter required fields starts-at/ends-at''))"

text \<open>
  The route parameters \<open>view_kwargs\<close>: one field per key the module reads, \<open>None\<close> when
  the key is not in the dictionary. The key \<open>id\<close> (written \<open>id'\<close>) is the one
  \<open>get_id\<close> writes, and it can hold \<open>None\<close>.
\<close>

record view_kwargs =
  id' :: "int attr"
  identifier' :: "string option"
  sponsor_id :: "int option"
  user_favourite_event_id :: "int option"
  copyright_id :: "int option"
  track_id :: "int option"
  session_type_id :: "int option"
  faq_type_id :: "int option"
  event_invoice_id :: "int option"
  event_invoice_identifier :: "string option"
  discount_code_id :: "int option"
  session_id :: "int option"
  social_link_id :: "int option"
  tax_id :: "int option"
  stripe_authorization_id :: "int option"
  user_id :: "int option"
  speakers_call_id :: "int option"
  ticket_id :: "int option"
  ticket_tag_id :: "int option"
  role_invite_id :: "int option"
  users_events_role_id :: "int option"
  access_code_id :: "int option"
  speaker_id :: "int option"
  email_notification_id :: "int option"
  microlocation_id :: "int option"
  attendee_id :: "int option"
  custom_form_id :: "int option"
  faq_id :: "int option"
  order_identifier :: "string option"
  feedback_id :: "int option"
  user_owner_id :: "int option"
  user_organizer_id :: "int option"
  user_coorganizer_id :: "int option"
  user_track_organizer_id :: "int option"
  user_registrar_id :: "int option"
  user_moderator_id :: "int option"
  user_marketer_id :: "int option"
  user_sales_admin_id :: "int option"
  event_type_id :: "int option"
  event_topic_id :: "int option"
  event_sub_topic_id :: "int option"

definition before_post :: "int \<Rightarrow> db \<Rightarrow> view_kwargs \<Rightarrow> data \<Rightarrow> error + data" where
  "before_post now database kwargs d =
     (case view_kwargs.user_id kwargs of
        None \<Rightarrow> Inl (KeyError ''user_id'')
      | Some uid \<Rightarrow>
          (case find (\<lambda>u. user.id' u = uid) (users database) of
             None \<Rightarrow> Inl (AttributeError ''can_create_event'')
           | Some u \<Rightarrow>
               (case validate_event u d of
                  Inl e \<Rightarrow> Inl e
                | Inr _ \<Rightarrow>
                    (case data.state d of
                       Missing \<Rightarrow> Inl (KeyError ''state'')
                     | _ \<Rightarrow>
                         if get (data.state d) \<noteq> Some ''draft''
                         then validate_date now None d else Inr d))))"

section \<open>Side-effect dispatcher\<close>

text \<open>
  \<open>str_int\<close> is Python's \<open>str\<close> on an integer: decimal digits, a minus sign for a
  negative number.
\<close>

function str_nat :: "nat \<Rightarrow> string" where
  "str_nat n =
     (if n < 10 then [''0123456789'' ! n]
      else str_nat (n div 10) @ [''0123456789'' ! (n mod 10)])"
  by pat_completeness auto
termination
  by (relation "measure (\<lambda>n. n)") auto

definition str_int :: "int \<Rightarrow> string" where
  "str_int i = (if i < 0 then CHR ''-'' # str_nat (nat (- i)) else str_nat (nat i))"

text \<open>
  The effects of the module on its collaborators are kept in a \<open>world\<close>: the queue of
  background jobs submitted with \<open>.delay\<close> (oldest first), the export-job tracking
  records, the objects handed to \<open>save_to_db\<close>, and the events for which
  \<open>create_custom_forms_for_attendees\<close> was called.
\<close>

datatype task =
  export_xcal_task | export_ical_task | export_pentabarf_task | resize_event_images_task

datatype task_arg = Temp bool | ImageUrl string

datatype job = Job task string task_arg

datatype saved =
    SavedUsersEventsRoles "int option" int "int option"
  | SavedRoleInvite string string int int string
  | SavedEvent event

record world =
  queue :: "job list"
  export_jobs :: "(nat \<times> string) list"
  saves :: "saved list"
  custom_forms :: "int list"

text \<open>
  Modelled from the spec: the background job submitter \<open>submit_job(kind, event_id, args)
  \<rightarrow> task_handle\<close> (the Celery tasks of app.api.helpers.tasks are not in this file).
  \<open>delay\<close> appends the job to the queue and returns its handle, the job's position in the
  queue.
\<close>

definition delay :: "world \<Rightarrow> job \<Rightarrow> nat \<times> world" where
  "delay w j = (length (queue w), w\<lparr>queue := queue w @ [j]\<rparr>)"

text \<open>
  Modelled from the spec: \<open>create_export_job\<close> (app.api.helpers.export_helpers) adds the
  tracking record that pairs a task handle with the event id; \<open>save_to_db\<close>
  (app.api.helpers.db) is the collaborator \<open>persist(entity)\<close>;
  \<open>create_custom_forms_for_attendees\<close> (app.api.helpers.events) is recorded as a call.
\<close>

definition create_export_job :: "world \<Rightarrow> nat \<Rightarrow> string \<Rightarrow> world" where
  "create_export_job w task_id eid = w\<lparr>export_jobs := export_jobs w @ [(task_id, eid)]\<rparr>"

definition save_to_db :: "world \<Rightarrow> saved \<Rightarrow> world" where
  "save_to_db w x = w\<lparr>saves := saves w @ [x]\<rparr>"

definition create_custom_forms_for_attendees :: "world \<Rightarrow> event \<Rightarrow> world" where
  "create_custom_forms_for_attendees w ev = w\<lparr>custom_forms := custom_forms w @ [event.id' ev]\<rparr>"

definition start_export_tasks :: "world \<Rightarrow> event \<Rightarrow> world" where
  "start_export_tasks w ev =
     (let eid = str_int (event.id' ev);
          (task_xcal, w1) = delay w (Job export_xcal_task eid (Temp False));
          w2 = create_export_job w1 task_xcal eid;
          (task_ical, w3) = delay w2 (Job export_ical_task eid (Temp False));
          w4 = create_export_job w3 task_ical eid;
          (task_pentabarf, w5) = delay w4 (Job export_pentabarf_task eid (Temp False))
      in create_export_job w5 task_pentabarf eid)"

definition start_image_resizing_tasks :: "world \<Rightarrow> event \<Rightarrow> string \<Rightarrow> world" where
  "start_image_resizing_tasks w ev url =
     (let eid = str_int (event.id' ev)
      in snd (delay w (Job resize_event_images_task eid (ImageUrl url))))"

definition clear_export_urls :: "world \<Rightarrow> event \<Rightarrow> event \<times> world" where
  "clear_export_urls w ev =
     (let ev' = ev\<lparr>ical_url := None, xcal_url := None, pentabarf_url := None\<rparr>
      in (ev', save_to_db w (SavedEvent ev')))"

text \<open>
  \<open>EventList.after_create_object\<close>. \<open>.first()\<close> is \<open>find\<close>; reading an attribute of the
  \<open>None\<close> it returns for a missing row raises \<open>AttributeError\<close>.
\<close>

definition after_create_object ::
    "db \<Rightarrow> world \<Rightarrow> event \<Rightarrow> data \<Rightarrow> view_kwargs \<Rightarrow> error + world" where
  "after_create_object database w ev d vk =
     (case view_kwargs.user_id vk of
        None \<Rightarrow> Inl (KeyError ''user_id'')
      | Some uid \<Rightarrow>
          (let u = find (\<lambda>u. user.id' u = uid) (users database);
               r = find (\<lambda>r. role.name r = OWNER) (roles database);
               w1 = save_to_db w (SavedUsersEventsRoles (map_option user.id' u) (event.id' ev)
                                    (map_option role.id' r))
           in case u of
                None \<Rightarrow> Inl (AttributeError ''email'')
              | Some usr \<Rightarrow>
                  (case r of
                     None \<Rightarrow> Inl (AttributeError ''title_name'')
                   | Some rl \<Rightarrow>
                       (let w2 = save_to_db w1 (SavedRoleInvite (email usr) (title_name rl)
                                                  (event.id' ev) (role.id' rl) ''accepted'');
                            w3 = create_custom_forms_for_attendees w2 ev;
                            w4 = (if event.state ev = ''published''
                                     \<and> truthy_datetime (schedule_published_on ev)
                                  then start_export_tasks w3 ev else w3)
                        in Inr (case get (data.original_image_url d) of
                                  Some url \<Rightarrow>
                                    if url \<noteq> [] then start_image_resizing_tasks w4 ev url else w4
                                | None \<Rightarrow> w4)))))"

section \<open>Owner resolver\<close>

text \<open>
  Modelled from the spec: \<open>safe_query\<close> and \<open>safe_query_kwargs\<close> (app.api.helpers.db) are the
  collaborator \<open>fetch_by_id_or_alt_key(entity_type, key_name, value) \<rightarrow> entity | NotFound\<close>:
  the row of the table whose column holds the value, or \<open>ObjectNotFound\<close> naming the
  parameter. \<open>safe_query_kwargs(M, view_kwargs, p, c)\<close> is \<open>safe_query\<close> on the value
  \<open>view_kwargs[p]\<close>.
\<close>

definition safe_query :: "'r list \<Rightarrow> ('r \<Rightarrow> 'k) \<Rightarrow> 'k \<Rightarrow> string \<Rightarrow> error + 'r" where
  "safe_query table column v parameter_name =
     (case find (\<lambda>r. column r = v) table of
        None \<Rightarrow> Inl (ObjectNotFound parameter_name None)
      | Some r \<Rightarrow> Inr r)"

text \<open>
  \<open>query_one\<close> is \<open>db.session.query(M).filter_by(id=v).one()\<close> inside the module's
  \<open>try\<close>: no row is \<open>NoResultFound\<close>, which the module turns into \<open>ObjectNotFound\<close> with the
  text \<open>"<label>: <v> not found"\<close>; more than one row is \<open>MultipleResultsFound\<close>, which it
  does not catch.
\<close>

definition query_one :: "owned list \<Rightarrow> int \<Rightarrow> string \<Rightarrow> string \<Rightarrow> error + owned" where
  "query_one table v parameter_name label =
     (case filter (\<lambda>r. owned.id' r = v) table of
        [] \<Rightarrow> Inl (ObjectNotFound parameter_name (Some (label @ '': '' @ str_int v @ '' not found'')))
      | [r] \<Rightarrow> Inr r
      | _ \<Rightarrow> Inl MultipleResultsFound)"

text \<open>
  The two ways the module writes the owner: \<open>if x.event_id is not None\<close> and
  \<open>if x.event_id\<close> (which also treats the id 0 as absent); both store \<open>None\<close> otherwise.
\<close>

definition set_owner :: "view_kwargs \<Rightarrow> int option \<Rightarrow> view_kwargs" where
  "set_owner vk owner =
     (case owner of
        Some e \<Rightarrow> vk\<lparr>view_kwargs.id' := Value e\<rparr>
      | None \<Rightarrow> vk\<lparr>view_kwargs.id' := Null\<rparr>)"

definition set_owner_truthy :: "view_kwargs \<Rightarrow> int option \<Rightarrow> view_kwargs" where
  "set_owner_truthy vk owner =
     (case owner of
        Some e \<Rightarrow> if e \<noteq> 0 then vk\<lparr>view_kwargs.id' := Value e\<rparr>
                  else vk\<lparr>view_kwargs.id' := Null\<rparr>
      | None \<Rightarrow> vk\<lparr>view_kwargs.id' := Null\<rparr>)"

text \<open>
  The branches of \<open>get_id\<close>, one definition per shape of \<open>if\<close> block.
  \<open>identifier_branch\<close>: the event slug. \<open>id_branch\<close>: \<open>if view_kwargs.get(k) is not None\<close>,
  \<open>safe_query_kwargs\<close> by primary key, owner written with \<open>is not None\<close>.
  \<open>alt_key_branch\<close>: the same by the column \<open>identifier\<close>. \<open>user_id_branch\<close>: guarded by
  \<open>user_id\<close>, it reads \<open>view_kwargs['discount_code_id']\<close>. \<open>users_events_role_branch\<close>: the
  block without an \<open>else\<close>. \<open>truthy_one_branch\<close>: \<open>if view_kwargs.get(k)\<close>, \<open>.one()\<close>, owner
  written by truthiness. \<open>attendee_branch\<close>: \<open>if view_kwargs.get(k)\<close>, \<open>safe_query_kwargs\<close>,
  owner written with \<open>is not None\<close>.
\<close>

definition identifier_branch :: "db \<Rightarrow> view_kwargs \<Rightarrow> error + view_kwargs" where
  "identifier_branch database vk =
     (case view_kwargs.identifier' vk of
        None \<Rightarrow> Inr vk
      | Some v \<Rightarrow>
          if v = [] then Inr vk
          else (case safe_query (events database) event.identifier' v ''identifier'' of
                  Inl e \<Rightarrow> Inl e
                | Inr ev \<Rightarrow> Inr (vk\<lparr>view_kwargs.id' := Value (event.id' ev)\<rparr>)))"

definition id_branch ::
    "db \<Rightarrow> model \<Rightarrow> (view_kwargs \<Rightarrow> int option) \<Rightarrow> string \<Rightarrow> view_kwargs \<Rightarrow> error + view_kwargs" where
  "id_branch database m key parameter_name vk =
     (case key vk of
        None \<Rightarrow> Inr vk
      | Some v \<Rightarrow>
          (case safe_query (rows database m) owned.id' v parameter_name of
             Inl e \<Rightarrow> Inl e
           | Inr x \<Rightarrow> Inr (set_owner vk (owned.event_id x))))"

definition alt_key_branch ::
    "db \<Rightarrow> model \<Rightarrow> (view_kwargs \<Rightarrow> string option) \<Rightarrow> string \<Rightarrow> view_kwargs \<Rightarrow> error + view_kwargs" where
  "alt_key_branch database m key parameter_name vk =
     (case key vk of
        None \<Rightarrow> Inr vk
      | Some v \<Rightarrow>
          (case safe_query (rows database m) owned.identifier' v parameter_name of
             Inl e \<Rightarrow> Inl e
           | Inr x \<Rightarrow> Inr (set_owner vk (owned.event_id x))))"

definition user_id_branch :: "db \<Rightarrow> view_kwargs \<Rightarrow> error + view_kwargs" where
  "user_id_branch database vk =
     (case view_kwargs.user_id vk of
        None \<Rightarrow> Inr vk
      | Some _ \<Rightarrow>
          (case view_kwargs.discount_code_id vk of
             None \<Rightarrow> Inl (KeyError ''discount_code_id'')
           | Some v \<Rightarrow>
               (case query_one (rows database DiscountCode) v ''discount_code_id'' ''DiscountCode'' of
                  Inl e \<Rightarrow> Inl e
                | Inr x \<Rightarrow> Inr (set_owner vk (owned.event_id x)))))"

definition users_events_role_branch :: "db \<Rightarrow> view_kwargs \<Rightarrow> error + view_kwargs" where
  "users_events_role_branch database vk =
     (case view_kwargs.users_events_role_id vk of
        None \<Rightarrow> Inr vk
      | Some v \<Rightarrow>
          (case safe_query (users_events_roles database) users_events_role.id' v
                  ''users_events_role_id'' of
             Inl e \<Rightarrow> Inl e
           | Inr x \<Rightarrow>
               (case users_events_role.event_id x of
                  Some e \<Rightarrow> Inr (vk\<lparr>view_kwargs.id' := Value e\<rparr>)
                | None \<Rightarrow> Inr vk)))"

definition truthy_one_branch ::
    "db \<Rightarrow> model \<Rightarrow> (view_kwargs \<Rightarrow> int option) \<Rightarrow> string \<Rightarrow> string \<Rightarrow> view_kwargs
       \<Rightarrow> error + view_kwargs" where
  "truthy_one_branch database m key parameter_name label vk =
     (case key vk of
        None \<Rightarrow> Inr vk
      | Some v \<Rightarrow>
          if v = 0 then Inr vk
          else (case query_one (rows database m) v parameter_name label of
                  Inl e \<Rightarrow> Inl e
                | Inr x \<Rightarrow> Inr (set_owner_truthy vk (owned.event_id x))))"

definition attendee_branch :: "db \<Rightarrow> view_kwargs \<Rightarrow> error + view_kwargs" where
  "attendee_branch database vk =
     (case view_kwargs.attendee_id vk of
        None \<Rightarrow> Inr vk
      | Some v \<Rightarrow>
          if v = 0 then Inr vk
          else (case safe_query (rows database TicketHolder) owned.id' v ''attendee_id'' of
                  Inl e \<Rightarrow> Inl e
                | Inr x \<Rightarrow> Inr (set_owner vk (owned.event_id x))))"

text \<open>
  \<open>run\<close> executes the \<open>if\<close> blocks one after the other on the dictionary each of them
  updates; the first exception ends the call.
\<close>

fun run :: "('a \<Rightarrow> error + 'a) list \<Rightarrow> 'a \<Rightarrow> error + 'a" where
  "run [] x = Inr x"
| "run (f # fs) x = (case f x of Inl e \<Rightarrow> Inl e | Inr y \<Rightarrow> run fs y)"

definition get_id :: "db \<Rightarrow> view_kwargs \<Rightarrow> error + view_kwargs" where
  "get_id database =
     run [ identifier_branch database,
           id_branch database Sponsor sponsor_id ''sponsor_id'',
           id_branch database UserFavouriteEvent user_favourite_event_id
             ''user_favourite_event_id'',
           id_branch database EventCopyright copyright_id ''copyright_id'',
           id_branch database Track track_id ''track_id'',
           id_branch database SessionType session_type_id ''session_type_id'',
           id_branch database FaqType faq_type_id ''faq_type_id'',
           id_branch database EventInvoice event_invoice_id ''event_invoice_id'',
           alt_key_branch database EventInvoice event_invoice_identifier
             ''event_invoice_identifier'',
           id_branch database DiscountCode view_kwargs.discount_code_id ''discount_code_id'',
           id_branch database Session session_id ''session_id'',
           id_branch database SocialLink social_link_id ''social_link_id'',
           id_branch database Tax tax_id ''tax_id'',
           id_branch database StripeAuthorization stripe_authorization_id
             ''stripe_authorization_id'',
           user_id_branch database,
           id_branch database SpeakersCall speakers_call_id ''speakers_call_id'',
           id_branch database Ticket ticket_id ''ticket_id'',
           id_branch database TicketTag ticket_tag_id ''ticket_tag_id'',
           id_branch database RoleInvite role_invite_id ''role_invite_id'',
           users_events_role_branch database,
           id_branch database AccessCode access_code_id ''access_code_id'',
           truthy_one_branch database Speaker speaker_id ''speaker_id'' ''Speaker'',
           truthy_one_branch database EmailNotification email_notification_id
             ''email_notification_id'' ''Email Notification'',
           truthy_one_branch database Microlocation microlocation_id ''microlocation_id''
             ''Microlocation'',
           attendee_branch database,
           id_branch database CustomForms custom_form_id ''custom_form_id'',
           id_branch database Faq faq_id ''faq_id'',
           alt_key_branch database Order order_identifier ''order_identifier'',
           id_branch database Feedback feedback_id ''feedback_id'' ]"

section \<open>Visibility filter builder\<close>

text \<open>
  A query over \<open>Event\<close> is the predicate that selects its rows; \<open>fetch\<close> runs it on the
  table. Row multiplicity (a join can repeat an event) is not kept. \<open>holds_role\<close> is the
  join \<open>Event.roles\<close>, \<open>filter_by(user_id=...)\<close>, \<open>UsersEventsRoles.role\<close> with a filter on
  \<open>Role.name\<close>.
\<close>

type_synonym query = "event \<Rightarrow> bool"

definition fetch :: "db \<Rightarrow> query \<Rightarrow> event list" where
  "fetch database q = filter q (events database)"

definition holds_role :: "db \<Rightarrow> int \<Rightarrow> (role_name \<Rightarrow> bool) \<Rightarrow> query" where
  "holds_role database uid test ev =
     (\<exists>x \<in> set (users_events_roles database).
        users_events_role.event_id x = Some (event.id' ev)
        \<and> users_events_role.user_id x = uid
        \<and> (\<exists>r \<in> set (roles database). role.id' r = role_id x \<and> test (role.name r)))"

text \<open>
  \<open>base_query\<close> is the query after the first \<open>if\<close> of \<open>EventList.query\<close>,
  \<open>default_query\<close> the one after the second (the union with the caller's managed events).
\<close>

definition base_query :: "ctx \<Rightarrow> query" where
  "base_query c =
     (case current_user c of
        None \<Rightarrow> (\<lambda>ev. event.state ev = ''published'')
      | Some u \<Rightarrow>
          if \<not> is_staff u then (\<lambda>ev. event.state ev = ''published'') else (\<lambda>ev. True))"

definition default_query :: "ctx \<Rightarrow> db \<Rightarrow> query" where
  "default_query c database =
     (case current_user c of
        None \<Rightarrow> base_query c
      | Some u \<Rightarrow>
          (\<lambda>ev. base_query c ev
                \<or> holds_role database (user.id' u)
                     (\<lambda>n. n = COORGANIZER \<or> n = ORGANIZER \<or> n = OWNER) ev))"

text \<open>
  \<open>role_scope\<close> is the block repeated for the nine user keys: the block's key, the
  parameter name its fetch reports, and its filter on \<open>Role.name\<close> are the arguments.
  The join is made on the query built so far.
\<close>

definition role_scope ::
    "ctx \<Rightarrow> db \<Rightarrow> int option \<Rightarrow> string \<Rightarrow> (role_name \<Rightarrow> bool) \<Rightarrow> query \<Rightarrow> error + query" where
  "role_scope c database key parameter_name test q =
     (case key of
        None \<Rightarrow> Inr q
      | Some v \<Rightarrow>
          if v \<noteq> 0 \<and> sublist ''GET'' (request_method c) then
            (if \<not> is_user_itself c v then Inl (ForbiddenError [] ''Access Forbidden'')
             else (case safe_query (users database) user.id' v parameter_name of
                     Inl e \<Rightarrow> Inl e
                   | Inr u \<Rightarrow> Inr (\<lambda>ev. q ev \<and> holds_role database (user.id' u) test ev)))
          else Inr q)"

text \<open>
  \<open>classification_scope\<close> is the block of the three classification keys: a new query on
  the whole table. \<open>discount_scope\<close> is the last block.
\<close>

definition classification_scope ::
    "ctx \<Rightarrow> int option \<Rightarrow> (event \<Rightarrow> int option) \<Rightarrow> query \<Rightarrow> error + query" where
  "classification_scope c key column q =
     (case key of
        None \<Rightarrow> Inr q
      | Some v \<Rightarrow>
          if v \<noteq> 0 \<and> sublist ''GET'' (request_method c)
          then Inr (\<lambda>ev. column ev = Some v) else Inr q)"

definition discount_scope :: "ctx \<Rightarrow> db \<Rightarrow> view_kwargs \<Rightarrow> query \<Rightarrow> error + query" where
  "discount_scope c database vk q =
     (case view_kwargs.discount_code_id vk of
        None \<Rightarrow> Inr q
      | Some v \<Rightarrow>
          if v \<noteq> 0 \<and> sublist ''GET'' (request_method c) then
            (case get_id database vk of
               Inl e \<Rightarrow> Inl e
             | Inr vk' \<Rightarrow>
                 (case view_kwargs.id' vk' of
                    Missing \<Rightarrow> Inl (KeyError ''id'')
                  | a \<Rightarrow>
                      if \<not> is_coorganizer c (get a)
                      then Inl (ForbiddenError [] ''Coorganizer access is required'')
                      else Inr (\<lambda>ev. event.discount_code_id ev = Some v)))
          else Inr q)"

definition EventList_query :: "ctx \<Rightarrow> db \<Rightarrow> view_kwargs \<Rightarrow> error + query" where
  "EventList_query c database vk =
     run [ role_scope c database (view_kwargs.user_id vk) ''user_id'' (\<lambda>n. n \<noteq> ATTENDEE),
           role_scope c database (user_owner_id vk) ''user_owner_id'' (\<lambda>n. n = OWNER),
           role_scope c database (user_organizer_id vk) ''user_organizer_id''
             (\<lambda>n. n = ORGANIZER),
           role_scope c database (user_coorganizer_id vk) ''user_coorganizer_id''
             (\<lambda>n. n = COORGANIZER),
           role_scope c database (user_track_organizer_id vk) ''user_organizer_id''
             (\<lambda>n. n = TRACK_ORGANIZER),
           role_scope c database (user_registrar_id vk) ''user_registrar_id''
             (\<lambda>n. n = REGISTRAR),
           role_scope c database (user_moderator_id vk) ''user_moderator_id''
             (\<lambda>n. n = MODERATOR),
           role_scope c database (user_marketer_id vk) ''user_marketer_id''
             (\<lambda>n. n = MARKETER),
           role_scope c database (user_sales_admin_id vk) ''user_sales_admin_id''
             (\<lambda>n. n = SALES_ADMIN),
           classification_scope c (view_kwargs.event_type_id vk) event.event_type_id,
           classification_scope c (view_kwargs.event_topic_id vk) event.event_topic_id,
           classification_scope c (view_kwargs.event_sub_topic_id vk) event.event_sub_topic_id,
           discount_scope c database vk ]
       (default_query c database)"

section \<open>EventDetail\<close>

definition before_get_object :: "db \<Rightarrow> view_kwargs \<Rightarrow> error + view_kwargs" where
  "before_get_object database vk =
     (case get_id database vk of
        Inl e \<Rightarrow> Inl e
      | Inr vk' \<Rightarrow> alt_key_branch database Order order_identifier ''order_identifier'' vk')"

definition after_get_object :: "ctx \<Rightarrow> event option \<Rightarrow> error + unit" where
  "after_get_object c ev =
     (case ev of
        None \<Rightarrow> Inr ()
      | Some e \<Rightarrow>
          if event.state e = ''draft'' then
            (if \<not> is_logged_in c \<or> \<not> is_coorganizer c (Some (event.id' e))
             then Inl (ObjectNotFound ''{id}'' (Some ''Event: not found''))
             else Inr ())
          else Inr ())"

definition before_patch :: "ctx \<Rightarrow> db \<Rightarrow> data \<Rightarrow> error + unit" where
  "before_patch c database d =
     (case current_user c of
        None \<Rightarrow> Inl (AttributeError ''id'')
      | Some cu \<Rightarrow>
          (case filter (\<lambda>u. user.id' u = user.id' cu) (users database) of
             [] \<Rightarrow> Inl NoResultFound
           | [u] \<Rightarrow> validate_event u d
           | _ \<Rightarrow> Inl MultipleResultsFound))"

text \<open>
  \<open>EventDetail.before_update_object\<close>, in its three steps. \<open>date_check\<close> is the first:
  the three flags and the call of \<open>validate_date\<close>. \<open>delete_check\<close> is the second: the
  guard on a change of \<open>deleted_at\<close>, which writes the event. The third submits the
  resizing job. The event, the payload and the world are returned as they are left.
\<close>

definition is_date_updated :: "event \<Rightarrow> data \<Rightarrow> bool" where
  "is_date_updated ev d =
     (get (data.starts_at d) \<noteq> event.starts_at ev \<or> get (data.ends_at d) \<noteq> event.ends_at ev)"

definition is_draft_published :: "event \<Rightarrow> data \<Rightarrow> bool" where
  "is_draft_published ev d = (event.state ev = ''draft'' \<and> get (data.state d) = Some ''published'')"

definition is_event_restored :: "event \<Rightarrow> data \<Rightarrow> bool" where
  "is_event_restored ev d =
     (truthy_datetime (event.deleted_at ev) \<and> \<not> truthy_datetime (get (data.deleted_at d)))"

definition date_check :: "int \<Rightarrow> event \<Rightarrow> data \<Rightarrow> error + data" where
  "date_check now ev d =
     (if is_date_updated ev d \<or> is_draft_published ev d \<or> is_event_restored ev d
      then validate_date now (Some ev) d else Inr d)"

definition delete_check :: "ctx \<Rightarrow> event \<Rightarrow> data \<Rightarrow> error + event" where
  "delete_check c ev d =
     (if is_admin c \<and> get (data.deleted_at d) \<noteq> event.deleted_at ev then
        (if length (orders ev) \<noteq> 0 \<and> \<not> is_super_admin c
         then Inl (ForbiddenError [] ''Event associated with orders cannot be deleted'')
         else Inr (ev\<lparr>event.deleted_at := get (data.deleted_at d)\<rparr>))
      else Inr ev)"

definition before_update_object ::
    "ctx \<Rightarrow> int \<Rightarrow> world \<Rightarrow> event \<Rightarrow> data \<Rightarrow> error + event \<times> data \<times> world" where
  "before_update_object c now w ev d =
     (case date_check now ev d of
        Inl e \<Rightarrow> Inl e
      | Inr d1 \<Rightarrow>
          (case delete_check c ev d1 of
             Inl e \<Rightarrow> Inl e
           | Inr ev1 \<Rightarrow>
               Inr (ev1, d1,
                    (case get (data.original_image_url d1) of
                       Some url \<Rightarrow>
                         if url \<noteq> [] \<and> Some url \<noteq> event.original_image_url ev1
                         then start_image_resizing_tasks w ev1 url else w
                     | None \<Rightarrow> w))))"

definition after_update_object :: "world \<Rightarrow> event \<Rightarrow> event \<times> world" where
  "after_update_object w ev =
     (if event.state ev = ''published'' \<and> truthy_datetime (schedule_published_on ev)
      then (ev, start_export_tasks w ev) else clear_export_urls w ev)"

section \<open>Vocabulary of the properties\<close>

text \<open>
  The effective dates of a proposal are the dates \<open>validate_date\<close> compares: the payload's,
  or the existing event's for a key the payload omits.
\<close>

definition effective_starts_at :: "event option \<Rightarrow> data \<Rightarrow> int option" where
  "effective_starts_at ev d = get (data.starts_at (fill_dates ev d))"

definition effective_ends_at :: "event option \<Rightarrow> data \<Rightarrow> int option" where
  "effective_ends_at ev d = get (data.ends_at (fill_dates ev d))"

text \<open>
  A restore: the existing event has a \<open>deleted_at\<close> and the proposal has none (the key is
  missing or holds \<open>None\<close>, which is what \<open>not data.get('deleted_at')\<close> reads). A
  soft-delete: the existing event has no \<open>deleted_at\<close> and the proposal sets one.
\<close>

definition restored :: "event option \<Rightarrow> data \<Rightarrow> bool" where
  "restored ev d =
     (case ev of
        None \<Rightarrow> False
      | Some e \<Rightarrow> event.deleted_at e \<noteq> None \<and> get (data.deleted_at d) = None)"

definition soft_deleted :: "event option \<Rightarrow> data \<Rightarrow> bool" where
  "soft_deleted ev d =
     (case ev of
        None \<Rightarrow> False
      | Some e \<Rightarrow> event.deleted_at e = None \<and> get (data.deleted_at d) \<noteq> None)"

text \<open>
  \<open>dates_ordered\<close>: both dates are set and the start is strictly before the end.
  \<open>updated_starts_at\<close> and \<open>updated_ends_at\<close> are the event's dates once the data layer
  has written the accepted payload's keys on it.
\<close>

definition dates_ordered :: "int option \<Rightarrow> int option \<Rightarrow> bool" where
  "dates_ordered a b = (case (a, b) of (Some s, Some e) \<Rightarrow> s < e | _ \<Rightarrow> False)"

definition updated_starts_at :: "event \<Rightarrow> data \<Rightarrow> int option" where
  "updated_starts_at ev d =
     (case data.starts_at d of Missing \<Rightarrow> event.starts_at ev | a \<Rightarrow> get a)"

definition updated_ends_at :: "event \<Rightarrow> data \<Rightarrow> int option" where
  "updated_ends_at ev d =
     (case data.ends_at d of Missing \<Rightarrow> event.ends_at ev | a \<Rightarrow> get a)"

text \<open>
  A request has no route scoping when none of the thirteen keys \<open>EventList.query\<close> tests
  is true; it has no classification scoping when the last four are not.
\<close>

definition unclassified :: "view_kwargs \<Rightarrow> bool" where
  "unclassified vk =
     (\<not> truthy_int (view_kwargs.event_type_id vk)
      \<and> \<not> truthy_int (view_kwargs.event_topic_id vk)
      \<and> \<not> truthy_int (view_kwargs.event_sub_topic_id vk)
      \<and> \<not> truthy_int (view_kwargs.discount_code_id vk))"

definition unscoped :: "view_kwargs \<Rightarrow> bool" where
  "unscoped vk =
     (\<not> truthy_int (view_kwargs.user_id vk)
      \<and> \<not> truthy_int (user_owner_id vk)
      \<and> \<not> truthy_int (user_organizer_id vk)
      \<and> \<not> truthy_int (user_coorganizer_id vk)
      \<and> \<not> truthy_int (user_track_organizer_id vk)
      \<and> \<not> truthy_int (user_registrar_id vk)
      \<and> \<not> truthy_int (user_moderator_id vk)
      \<and> \<not> truthy_int (user_marketer_id vk)
      \<and> \<not> truthy_int (user_sales_admin_id vk)
      \<and> unclassified vk)"

definition is_saved_event :: "saved \<Rightarrow> bool" where
  "is_saved_event x = (case x of SavedEvent _ \<Rightarrow> True | _ \<Rightarrow> False)"

section \<open>Example requests\<close>

text \<open>
  A small database: user 1 owns the published event 7 and the draft event 8 and is
  registrar of the draft event 9; event 7 has one order and one sponsor; the role
  assignment 3 has no event.
\<close>

definition no_kwargs :: view_kwargs where
  "no_kwargs =
     \<lparr> view_kwargs.id' = Missing, view_kwargs.identifier' = None, sponsor_id = None,
       user_favourite_event_id = None, copyright_id = None, track_id = None,
       session_type_id = None, faq_type_id = None, event_invoice_id = None,
       event_invoice_identifier = None, view_kwargs.discount_code_id = None,
       session_id = None, social_link_id = None, tax_id = None,
       stripe_authorization_id = None, view_kwargs.user_id = None, speakers_call_id = None,
       ticket_id = None, ticket_tag_id = None, role_invite_id = None,
       users_events_role_id = None, access_code_id = None, speaker_id = None,
       email_notification_id = None, microlocation_id = None, attendee_id = None,
       custom_form_id = None, faq_id = None, order_identifier = None, feedback_id = None,
       user_owner_id = None, user_organizer_id = None, user_coorganizer_id = None,
       user_track_organizer_id = None, user_registrar_id = None, user_moderator_id = None,
       user_marketer_id = None, user_sales_admin_id = None,
       view_kwargs.event_type_id = None, view_kwargs.event_topic_id = None,
       view_kwargs.event_sub_topic_id = None \<rparr>"

definition no_data :: data where
  "no_data =
     \<lparr> data.name = Missing, data.state = Missing, data.starts_at = Missing,
       data.ends_at = Missing, data.deleted_at = Missing,
       data.original_image_url = Missing \<rparr>"

definition event7 :: event where
  "event7 =
     \<lparr> event.id' = 7, event.identifier' = ''summit'', event.state = ''published'',
       event.starts_at = Some 100, event.ends_at = Some 200, event.deleted_at = None,
       event.original_image_url = None, schedule_published_on = Some 50,
       ical_url = None, xcal_url = None, pentabarf_url = None,
       event.event_type_id = Some 3, event.event_topic_id = None,
       event.event_sub_topic_id = None, event.discount_code_id = None, orders = [31] \<rparr>"

definition event8 :: event where
  "event8 = event7\<lparr> event.id' := 8, event.identifier' := ''workshop'',
                     event.state := ''draft'', schedule_published_on := None, orders := [] \<rparr>"

definition event9 :: event where
  "event9 = event8\<lparr> event.id' := 9, event.identifier' := ''meetup'' \<rparr>"

definition user1 :: user where
  "user1 = \<lparr> user.id' = 1, email = ''ada@example.org'', is_staff = False,
             can_create_event = True, can_publish_event = True \<rparr>"

definition database1 :: db where
  "database1 =
     \<lparr> events = [event7, event8, event9],
       users = [user1],
       roles = [\<lparr> role.id' = 1, role.name = OWNER, title_name = ''Owner'' \<rparr>,
                \<lparr> role.id' = 2, role.name = REGISTRAR, title_name = ''Registrar'' \<rparr>],
       users_events_roles =
         [\<lparr> users_events_role.id' = 1, users_events_role.event_id = Some 8,
            users_events_role.user_id = 1, role_id = 1 \<rparr>,
          \<lparr> users_events_role.id' = 2, users_events_role.event_id = Some 9,
            users_events_role.user_id = 1, role_id = 2 \<rparr>,
          \<lparr> users_events_role.id' = 3, users_events_role.event_id = None,
            users_events_role.user_id = 1, role_id = 2 \<rparr>,
          \<lparr> users_events_role.id' = 4, users_events_role.event_id = Some 7,
            users_events_role.user_id = 1, role_id = 1 \<rparr>],
       rows = (\<lambda>m. if m = Sponsor
                    then [\<lparr> owned.id' = 5, owned.identifier' = [], owned.event_id = Some 7 \<rparr>]
                    else []) \<rparr>"

definition anonymous :: ctx where
  "anonymous =
     \<lparr> current_user = None, request_method = ''GET'', is_admin = False,
       is_super_admin = False, is_user_itself = (\<lambda>n. False),
       is_coorganizer = (\<lambda>e. False) \<rparr>"

definition caller1 :: ctx where
  "caller1 =
     \<lparr> current_user = Some user1, request_method = ''GET'', is_admin = False,
       is_super_admin = False, is_user_itself = (\<lambda>n. n = 1),
       is_coorganizer = (\<lambda>e. e = Some 7 \<or> e = Some 8) \<rparr>"

definition admin :: ctx where
  "admin =
     \<lparr> current_user = Some (user1\<lparr> user.id' := 2, is_staff := True \<rparr>),
       request_method = ''PATCH'', is_admin = True, is_super_admin = False,
       is_user_itself = (\<lambda>n. True), is_coorganizer = (\<lambda>e. True) \<rparr>"

definition super_admin :: ctx where
  "super_admin = admin\<lparr> is_super_admin := True \<rparr>"

definition world0 :: world where
  "world0 = \<lparr> queue = [], export_jobs = [], saves = [], custom_forms = [] \<rparr>"

section \<open>Lifecycle validator: properties\<close>

lemma truthy_datetime_iff: "truthy_datetime x \<longleftrightarrow> x \<noteq> None"
  by (cases x) simp_all

lemma fill_dates_deleted_at: "data.deleted_at (fill_dates ev d) = data.deleted_at d"
  by (simp add: fill_dates_def Let_def split: option.splits)

text \<open>
  C7. For every proposal whose two effective dates are set: when \<open>starts_at\<close> is not
  strictly before \<open>ends_at\<close> (equal instants included), \<open>validate_date\<close> raises the
  unprocessable-entity error whose pointer is the \<open>ends-at\<close> attribute; when it is
  strictly before, \<open>validate_date\<close> raises no error with that pointer, whatever the text.
\<close>

theorem validate_date_ends_at:
  assumes "effective_starts_at ev d = Some s" and "effective_ends_at ev d = Some e"
  shows "(\<not> s < e \<longrightarrow>
            validate_date now ev d =
              Inl (UnprocessableEntityError ''/data/attributes/ends-at''
                     ''ends-at should be after starts-at''))
       \<and> (s < e \<longrightarrow>
            (\<forall>msg. validate_date now ev d \<noteq>
               Inl (UnprocessableEntityError ''/data/attributes/ends-at'' msg)))"
  using assms
  by (auto simp: validate_date_def effective_starts_at_def effective_ends_at_def Let_def)

text \<open>
  At the instant 1000: a creation with both dates at 2000 is rejected on \<open>ends-at\<close>; a patch
  of event 7 (which starts at 100) that moves the end to 150 is not.
\<close>

theorem validate_date_ends_at_witness:
  "validate_date 1000 None (no_data\<lparr>data.starts_at := Value 2000, data.ends_at := Value 2000\<rparr>)
     = Inl (UnprocessableEntityError ''/data/attributes/ends-at''
              ''ends-at should be after starts-at'')
   \<and> validate_date 1000 (Some event7) (no_data\<lparr>data.ends_at := Value 150\<rparr>)
     \<noteq> Inl (UnprocessableEntityError ''/data/attributes/ends-at''
              ''ends-at should be after starts-at'')"
  using validate_date_ends_at
          [of None "no_data\<lparr>data.starts_at := Value 2000, data.ends_at := Value 2000\<rparr>"
              2000 2000 1000]
        validate_date_ends_at
          [of "Some event7" "no_data\<lparr>data.ends_at := Value 150\<rparr>" 100 150 1000]
  by (simp add: effective_starts_at_def effective_ends_at_def fill_dates_def no_data_def
        event7_def)

text \<open>
  C1. When the two earlier checks of \<open>validate_date\<close> pass (both effective dates are set
  and ordered) and the effective \<open>starts_at\<close> is not strictly after the instant of
  evaluation, the outcome is decided three ways: a restore is accepted with the proposed
  state coerced to \<open>draft\<close>; a soft-delete is accepted with the payload as it is (the
  omitted dates filled in); anything else is rejected with the error whose pointer is the
  \<open>starts-at\<close> attribute. And on every input, ordered or not, a restore or a soft-delete
  never ends in an error with the \<open>starts-at\<close> pointer.
\<close>

theorem validate_date_past_start:
  "(effective_starts_at ev d = Some s \<and> effective_ends_at ev d = Some e \<and> s < e \<and> s \<le> now
      \<longrightarrow> validate_date now ev d =
            (if restored ev d then Inr ((fill_dates ev d)\<lparr>data.state := Value ''draft''\<rparr>)
             else if soft_deleted ev d then Inr (fill_dates ev d)
             else Inl (UnprocessableEntityError ''/data/attributes/starts-at''
                         ''starts-at should be after current date-time'')))
   \<and> (restored ev d \<or> soft_deleted ev d
      \<longrightarrow> (\<forall>msg. validate_date now ev d \<noteq>
               Inl (UnprocessableEntityError ''/data/attributes/starts-at'' msg)))"
  by (cases ev)
     (auto simp: validate_date_def effective_starts_at_def effective_ends_at_def Let_def
        restored_def soft_deleted_def truthy_datetime_iff fill_dates_deleted_at
        split: option.splits)

text \<open>
  Event 7 started at 100 and the instant is 1000. Restoring it (deleted at 500, the payload
  asks for \<open>published\<close> and clears \<open>deleted_at\<close>) gives the state \<open>draft\<close>; soft-deleting it
  is accepted; renaming it is rejected on \<open>starts-at\<close>.
\<close>

theorem validate_date_past_start_witness:
  "validate_date 1000 (Some (event7\<lparr>event.deleted_at := Some 500\<rparr>))
      (no_data\<lparr>data.state := Value ''published'', data.deleted_at := Null\<rparr>)
     = Inr (no_data\<lparr>data.state := Value ''draft'', data.deleted_at := Null,
                    data.starts_at := Value 100, data.ends_at := Value 200\<rparr>)
   \<and> validate_date 1000 (Some event7) (no_data\<lparr>data.deleted_at := Value 900\<rparr>)
     = Inr (no_data\<lparr>data.deleted_at := Value 900,
                    data.starts_at := Value 100, data.ends_at := Value 200\<rparr>)
   \<and> validate_date 1000 (Some event7) (no_data\<lparr>data.name := Value ''Summit''\<rparr>)
     = Inl (UnprocessableEntityError ''/data/attributes/starts-at''
              ''starts-at should be after current date-time'')"
  using validate_date_past_start
          [of "Some (event7\<lparr>event.deleted_at := Some 500\<rparr>)"
              "no_data\<lparr>data.state := Value ''published'', data.deleted_at := Null\<rparr>"
              100 200 1000]
        validate_date_past_start
          [of "Some event7" "no_data\<lparr>data.deleted_at := Value 900\<rparr>" 100 200 1000]
        validate_date_past_start
          [of "Some event7" "no_data\<lparr>data.name := Value ''Summit''\<rparr>" 100 200 1000]
  by (simp add: effective_starts_at_def effective_ends_at_def fill_dates_def no_data_def
        event7_def restored_def soft_deleted_def)

lemma validate_date_ordered:
  assumes "validate_date now ev d = Inr d'"
  shows "dates_ordered (get (data.starts_at d')) (get (data.ends_at d'))"
  using assms
  by (auto simp: validate_date_def dates_ordered_def Let_def split: option.splits if_splits)

lemma validate_date_keys:
  assumes "validate_date now ev d = Inr d'"
  shows "data.starts_at d' \<noteq> Missing \<and> data.ends_at d' \<noteq> Missing"
  using validate_date_ordered [OF assms]
  by (auto simp: dates_ordered_def split: option.splits)

lemma before_update_object_data:
  assumes "before_update_object c now w ev d = Inr (ev', d', w')"
  shows "date_check now ev d = Inr d'"
  using assms
  by (auto simp: before_update_object_def split: sum.splits)

lemma before_update_object_dates:
  assumes "before_update_object c now w ev d = Inr (ev', d', w')"
  shows "event.starts_at ev' = event.starts_at ev \<and> event.ends_at ev' = event.ends_at ev"
  using assms
  by (auto simp: before_update_object_def delete_check_def split: sum.splits if_splits)

text \<open>
  C4, as the code has it. A creation in a state other than \<open>draft\<close> is accepted only
  with ordered dates. An update on which the date check runs (a date differs from the
  stored one, a draft is published, or a deleted event is restored) is accepted only
  with ordered dates. An update of an event whose stored dates are ordered leaves them
  ordered, whether the check runs or not. Nothing is said of a creation in the state
  \<open>draft\<close>: \<open>before_post\<close> does not call \<open>validate_date\<close> for it.
\<close>

theorem date_order_enforced:
  "(before_post now database kwargs d = Inr d' \<and> get (data.state d) \<noteq> Some ''draft''
      \<longrightarrow> dates_ordered (get (data.starts_at d')) (get (data.ends_at d')))
   \<and> (before_update_object c now w ev p = Inr (ev', p', w')
        \<and> (is_date_updated ev p \<or> is_draft_published ev p \<or> is_event_restored ev p)
      \<longrightarrow> dates_ordered (updated_starts_at ev' p') (updated_ends_at ev' p'))
   \<and> (before_update_object c now w ev p = Inr (ev', p', w')
        \<and> dates_ordered (event.starts_at ev) (event.ends_at ev)
      \<longrightarrow> dates_ordered (updated_starts_at ev' p') (updated_ends_at ev' p'))"
proof (intro conjI impI)
  assume "before_post now database kwargs d = Inr d' \<and> get (data.state d) \<noteq> Some ''draft''"
  then have "validate_date now None d = Inr d'"
    by (auto simp: before_post_def split: option.splits sum.splits attr.splits if_splits)
  then show "dates_ordered (get (data.starts_at d')) (get (data.ends_at d'))"
    by (rule validate_date_ordered)
next
  assume "before_update_object c now w ev p = Inr (ev', p', w')
        \<and> (is_date_updated ev p \<or> is_draft_published ev p \<or> is_event_restored ev p)"
  then have v: "validate_date now (Some ev) p = Inr p'"
    using before_update_object_data [of c now w ev p ev' p' w'] by (simp add: date_check_def)
  from validate_date_ordered [OF v] validate_date_keys [OF v]
  show "dates_ordered (updated_starts_at ev' p') (updated_ends_at ev' p')"
    by (auto simp: updated_starts_at_def updated_ends_at_def split: attr.splits)
next
  assume a: "before_update_object c now w ev p = Inr (ev', p', w')
        \<and> dates_ordered (event.starts_at ev) (event.ends_at ev)"
  then have dc: "date_check now ev p = Inr p'"
    and o: "dates_ordered (event.starts_at ev) (event.ends_at ev)"
    using before_update_object_data [of c now w ev p ev' p' w'] by simp_all
  have same: "event.starts_at ev' = event.starts_at ev \<and> event.ends_at ev' = event.ends_at ev"
    using a before_update_object_dates by blast
  show "dates_ordered (updated_starts_at ev' p') (updated_ends_at ev' p')"
  proof (cases "is_date_updated ev p \<or> is_draft_published ev p \<or> is_event_restored ev p")
    case True
    then have v: "validate_date now (Some ev) p = Inr p'"
      using dc by (simp add: date_check_def)
    from validate_date_ordered [OF v] validate_date_keys [OF v]
    show ?thesis
      by (auto simp: updated_starts_at_def updated_ends_at_def split: attr.splits)
  next
    case False
    then have "p' = p" and "\<not> is_date_updated ev p"
      using dc by (simp_all add: date_check_def)
    then show ?thesis using o same
      by (auto simp: is_date_updated_def updated_starts_at_def updated_ends_at_def
            dates_ordered_def split: attr.splits option.splits)
  qed
qed

text \<open>
  At the instant 1000, user 1 creates a published event from 2000 to 3000, and an admin
  moves the end of event 7 to 300 while soft-deleting it: both are accepted, with ordered
  dates.
\<close>

theorem date_order_enforced_witness:
  "before_post 1000 database1 (no_kwargs\<lparr>view_kwargs.user_id := Some 1\<rparr>)
      (no_data\<lparr>data.name := Value ''Summit'', data.state := Value ''published'',
                 data.starts_at := Value 2000, data.ends_at := Value 3000\<rparr>)
     = Inr (no_data\<lparr>data.name := Value ''Summit'', data.state := Value ''published'',
                    data.starts_at := Value 2000, data.ends_at := Value 3000\<rparr>)
   \<and> dates_ordered (Some 2000) (Some 3000)
   \<and> before_update_object super_admin 1000 world0 event7
        (no_data\<lparr>data.ends_at := Value 300, data.deleted_at := Value 900\<rparr>)
     = Inr (event7\<lparr>event.deleted_at := Some 900\<rparr>,
            no_data\<lparr>data.ends_at := Value 300, data.deleted_at := Value 900,
                    data.starts_at := Value 100\<rparr>,
            world0)
   \<and> dates_ordered (Some 100) (Some 300)"
  using date_order_enforced
          [where now = 1000 and database = database1
             and kwargs = "no_kwargs\<lparr>view_kwargs.user_id := Some 1\<rparr>"
             and d = "no_data\<lparr>data.name := Value ''Summit'', data.state := Value ''published'',
                              data.starts_at := Value 2000, data.ends_at := Value 3000\<rparr>"
             and d' = "no_data\<lparr>data.name := Value ''Summit'', data.state := Value ''published'',
                               data.starts_at := Value 2000, data.ends_at := Value 3000\<rparr>"
             and c = super_admin and w = world0 and ev = event7
             and p = "no_data\<lparr>data.ends_at := Value 300, data.deleted_at := Value 900\<rparr>"
             and ev' = "event7\<lparr>event.deleted_at := Some 900\<rparr>"
             and p' = "no_data\<lparr>data.ends_at := Value 300, data.deleted_at := Value 900,
                               data.starts_at := Value 100\<rparr>"
             and w' = world0]
  by (simp add: before_post_def validate_event_def validate_date_def fill_dates_def
        no_kwargs_def no_data_def database1_def user1_def event7_def super_admin_def
        admin_def before_update_object_def date_check_def delete_check_def
        is_date_updated_def updated_starts_at_def updated_ends_at_def)

text \<open>
  C4 as stated fails: user 1 creates a draft that starts at 3000 and ends at 2000, and
  \<open>before_post\<close> accepts the payload as it is.
\<close>

theorem draft_creation_unordered:
  "before_post 1000 database1 (no_kwargs\<lparr>view_kwargs.user_id := Some 1\<rparr>)
      (no_data\<lparr>data.state := Value ''draft'', data.starts_at := Value 3000,
                 data.ends_at := Value 2000\<rparr>)
     = Inr (no_data\<lparr>data.state := Value ''draft'', data.starts_at := Value 3000,
                    data.ends_at := Value 2000\<rparr>)
   \<and> \<not> dates_ordered (Some 3000) (Some 2000)"
  by (simp add: before_post_def validate_event_def no_kwargs_def no_data_def database1_def
        user1_def dates_ordered_def)






section \<open>EventDetail: properties\<close>

text \<open>
  C10. A single-event fetch that finds a draft raises \<open>ObjectNotFound\<close> with the text
  \<open>Event: not found\<close> when the caller is not logged in or is not a co-organizer of the
  event; and \<open>after_get_object\<close> raises Forbidden on no input at all.
\<close>

theorem draft_not_found:
  assumes "event.state ev = ''draft''"
    and "\<not> is_logged_in c \<or> \<not> is_coorganizer c (Some (event.id' ev))"
  shows "after_get_object c (Some ev) = Inl (ObjectNotFound ''{id}'' (Some ''Event: not found''))
       \<and> (\<forall>x a b. after_get_object c x \<noteq> Inl (ForbiddenError a b))"
  using assms
  by (auto simp: after_get_object_def split: option.splits)

text \<open>
  The anonymous caller fetches the draft event 8; so does user 1, a co-organizer of the
  events 7 and 8 only, with the draft event 9.
\<close>

theorem draft_not_found_witness:
  "after_get_object anonymous (Some event8)
     = Inl (ObjectNotFound ''{id}'' (Some ''Event: not found''))
   \<and> after_get_object caller1 (Some event9)
     = Inl (ObjectNotFound ''{id}'' (Some ''Event: not found''))"
  using draft_not_found [of event8 anonymous] draft_not_found [of event9 caller1]
  by (simp add: event8_def event9_def event7_def anonymous_def caller1_def is_logged_in_def)

section \<open>Side-effect dispatcher: properties\<close>

lemma start_export_tasks_effect:
  "queue (start_export_tasks w ev) =
     queue w @ [Job export_xcal_task (str_int (event.id' ev)) (Temp False),
                Job export_ical_task (str_int (event.id' ev)) (Temp False),
                Job export_pentabarf_task (str_int (event.id' ev)) (Temp False)]
   \<and> export_jobs (start_export_tasks w ev) =
     export_jobs w @ [(length (queue w), str_int (event.id' ev)),
                      (length (queue w) + 1, str_int (event.id' ev)),
                      (length (queue w) + 2, str_int (event.id' ev))]
   \<and> saves (start_export_tasks w ev) = saves w"
  by (simp add: start_export_tasks_def delay_def create_export_job_def Let_def)

lemma start_image_resizing_tasks_effect:
  "queue (start_image_resizing_tasks w ev url) =
     queue w @ [Job resize_event_images_task (str_int (event.id' ev)) (ImageUrl url)]
   \<and> export_jobs (start_image_resizing_tasks w ev url) = export_jobs w
   \<and> saves (start_image_resizing_tasks w ev url) = saves w"
  by (simp add: start_image_resizing_tasks_def delay_def Let_def)

text \<open>
  C9. A creation that succeeds, of an event that is published with a
  \<open>schedule_published_on\<close>, with a cover-image URL in the payload. Exactly four jobs are
  added to the queue: the three exports (xCal, iCal, Pentabarf, in the order submitted)
  and the image resizing. Each export's handle, as the submission returned it, is
  recorded with the event id in an export-job record. No event is saved, so the clearing
  of the export URLs, which saves the event, has not run.
\<close>

theorem creation_dispatch:
  assumes "event.state ev = ''published''" and "schedule_published_on ev = Some t"
    and "get (data.original_image_url d) = Some url" and "url \<noteq> []"
    and "after_create_object database w ev d vk = Inr w'"
  shows "queue w' =
           queue w @ [Job export_xcal_task (str_int (event.id' ev)) (Temp False),
                      Job export_ical_task (str_int (event.id' ev)) (Temp False),
                      Job export_pentabarf_task (str_int (event.id' ev)) (Temp False),
                      Job resize_event_images_task (str_int (event.id' ev)) (ImageUrl url)]
       \<and> length (queue w') = length (queue w) + 4
       \<and> export_jobs w' =
           export_jobs w @ [(length (queue w), str_int (event.id' ev)),
                            (length (queue w) + 1, str_int (event.id' ev)),
                            (length (queue w) + 2, str_int (event.id' ev))]
       \<and> filter is_saved_event (saves w') = filter is_saved_event (saves w)"
  using assms
  by (auto simp: after_create_object_def Let_def start_export_tasks_effect
        start_image_resizing_tasks_effect create_custom_forms_for_attendees_def
        save_to_db_def is_saved_event_def split: option.splits)

lemma str_int_7: "str_int 7 = ''7''"
  by (simp add: str_int_def)

text \<open>
  User 1 creates event 7, published and scheduled, with a cover image, in an empty world:
  four jobs are queued, with the handles 0, 1 and 2 recorded for event 7.
\<close>

theorem creation_dispatch_witness:
  "(\<exists>w'. after_create_object database1 world0 event7
            (no_data\<lparr>data.original_image_url := Value ''https://example.org/cover.png''\<rparr>)
            (no_kwargs\<lparr>view_kwargs.user_id := Some 1\<rparr>) = Inr w'
        \<and> queue w' =
            [Job export_xcal_task ''7'' (Temp False), Job export_ical_task ''7'' (Temp False),
             Job export_pentabarf_task ''7'' (Temp False),
             Job resize_event_images_task ''7'' (ImageUrl ''https://example.org/cover.png'')]
        \<and> export_jobs w' = [(0, ''7''), (1, ''7''), (2, ''7'')]
        \<and> filter is_saved_event (saves w') = [])"
proof -
  let ?d = "no_data\<lparr>data.original_image_url := Value ''https://example.org/cover.png''\<rparr>"
  let ?vk = "no_kwargs\<lparr>view_kwargs.user_id := Some 1\<rparr>"
  obtain w' where ok: "after_create_object database1 world0 event7 ?d ?vk = Inr w'"
    by (simp add: after_create_object_def database1_def no_kwargs_def user1_def Let_def)
  have "event.id' event7 = 7" by (simp add: event7_def)
  with creation_dispatch [of event7 50 ?d "''https://example.org/cover.png''" database1 world0 ?vk w']
    ok str_int_7
  have "queue w' =
            [Job export_xcal_task ''7'' (Temp False), Job export_ical_task ''7'' (Temp False),
             Job export_pentabarf_task ''7'' (Temp False),
             Job resize_event_images_task ''7'' (ImageUrl ''https://example.org/cover.png'')]
        \<and> export_jobs w' = [(0, ''7''), (1, ''7''), (2, ''7'')]
        \<and> filter is_saved_event (saves w') = []"
    by (simp add: event7_def no_data_def world0_def)
  with ok show ?thesis by blast
qed

section \<open>Visibility filter builder: properties\<close>

lemma role_scope_absent:
  "\<not> truthy_int k \<Longrightarrow> role_scope c database k parameter_name test q = Inr q"
  by (cases k) (simp_all add: role_scope_def)

lemma classification_scope_absent:
  "\<not> truthy_int k \<Longrightarrow> classification_scope c k column q = Inr q"
  by (cases k) (simp_all add: classification_scope_def)

lemma discount_scope_absent:
  "\<not> truthy_int (view_kwargs.discount_code_id vk) \<Longrightarrow> discount_scope c database vk q = Inr q"
  by (cases "view_kwargs.discount_code_id vk") (simp_all add: discount_scope_def)

lemma role_scope_present:
  assumes "sublist ''GET'' (request_method c)" and "v \<noteq> 0" and "is_user_itself c v"
    and "find (\<lambda>u. user.id' u = v) (users database) = Some u"
  shows "role_scope c database (Some v) parameter_name test q =
           Inr (\<lambda>ev. q ev \<and> holds_role database v test ev)"
proof -
  have "user.id' u = v"
    using assms(4) by (auto simp: find_Some_iff)
  then show ?thesis
    using assms by (simp add: role_scope_def safe_query_def)
qed

lemma role_scope_restricts:
  assumes "role_scope c database k parameter_name test q = Inr q'" and "q' ev"
  shows "q ev"
  using assms
  by (cases k) (auto simp: role_scope_def split: if_splits sum.splits)

text \<open>
  C6. For an authenticated caller who is not staff, on a request with no route scoping,
  the query is the union of the published events with the events on which the caller
  holds the role owner, organizer or co-organizer: every published event is selected,
  every event the caller manages is selected whatever its state, and an event that is
  neither is not.
\<close>

theorem managed_or_published:
  assumes "current_user c = Some u" and "\<not> is_staff u" and "unscoped vk"
  shows "EventList_query c database vk =
           Inr (\<lambda>ev. event.state ev = ''published''
                     \<or> holds_role database (user.id' u)
                          (\<lambda>n. n = COORGANIZER \<or> n = ORGANIZER \<or> n = OWNER) ev)"
  using assms
  by (simp add: EventList_query_def unscoped_def unclassified_def role_scope_absent
        classification_scope_absent discount_scope_absent default_query_def base_query_def)

lemma manages_database1:
  "holds_role database1 1 (\<lambda>n. n = COORGANIZER \<or> n = ORGANIZER \<or> n = OWNER) ev
     \<longleftrightarrow> event.id' ev = 8 \<or> event.id' ev = 7"
  by (auto simp: holds_role_def database1_def)

lemma fetch_database1: "fetch database1 q = filter q [event7, event8, event9]"
  by (simp add: fetch_def database1_def)

text \<open>
  User 1 owns the published event 7 and the draft event 8 and is registrar of the draft
  event 9: the unscoped list holds the events 7 and 8.
\<close>

theorem managed_or_published_witness:
  "(\<exists>q. EventList_query caller1 database1 no_kwargs = Inr q
        \<and> q event7 \<and> event.state event7 = ''published''
        \<and> q event8 \<and> event.state event8 = ''draft''
        \<and> \<not> q event9 \<and> event.state event9 = ''draft''
        \<and> fetch database1 q = [event7, event8])"
proof -
  have "unscoped no_kwargs"
    by (simp add: unscoped_def unclassified_def no_kwargs_def)
  with managed_or_published [of caller1 user1 no_kwargs database1]
  have "EventList_query caller1 database1 no_kwargs =
          Inr (\<lambda>ev. event.state ev = ''published''
                \<or> holds_role database1 1 (\<lambda>n. n = COORGANIZER \<or> n = ORGANIZER \<or> n = OWNER) ev)"
    by (simp add: caller1_def user1_def)
  moreover have "event.id' event7 = 7 \<and> event.id' event8 = 8 \<and> event.id' event9 = 9"
    and "event.state event7 = ''published'' \<and> event.state event8 = ''draft''
           \<and> event.state event9 = ''draft''"
    by (simp_all add: event7_def event8_def event9_def)
  ultimately show ?thesis
    by (simp add: manages_database1 fetch_database1)
qed

lemma run_role_scopes_restrict:
  assumes "run [ role_scope c database k1 p1 t1, role_scope c database k2 p2 t2,
                 role_scope c database k3 p3 t3, role_scope c database k4 p4 t4,
                 role_scope c database k5 p5 t5, role_scope c database k6 p6 t6,
                 role_scope c database k7 p7 t7, role_scope c database k8 p8 t8,
                 role_scope c database k9 p9 t9 ] q = Inr q'"
    and "q' ev"
  shows "q ev"
  using assms
  by (auto simp: split: sum.splits dest!: role_scope_restricts)

lemma run_append:
  "run (fs @ gs) x = (case run fs x of Inl e \<Rightarrow> Inl e | Inr y \<Rightarrow> run gs y)"
  by (induction fs arbitrary: x) (auto split: sum.splits)

lemma run_append_Inr:
  assumes "run (fs @ gs) x = Inr z"
  shows "\<exists>y. run fs x = Inr y \<and> run gs y = Inr z"
  using assms by (simp add: run_append split: sum.splits)

text \<open>
  What the first block of \<open>EventList.query\<close> establishes, and how far it reaches. The
  base query of an anonymous caller and of a caller who is not staff selects the
  published events only; the base query of a staff caller selects every event. As long
  as no classification block replaces the query (no event-type, event-topic,
  event-sub-topic or discount-code key), every event the final query selects for an
  anonymous caller is published.
\<close>

lemma anonymous_published_only:
  "(current_user c = None \<or> (\<exists>u. current_user c = Some u \<and> \<not> is_staff u)
      \<longrightarrow> base_query c = (\<lambda>ev. event.state ev = ''published''))
   \<and> ((\<exists>u. current_user c = Some u \<and> is_staff u) \<longrightarrow> base_query c = (\<lambda>ev. True))
   \<and> (current_user c = None \<and> unclassified vk \<and> EventList_query c database vk = Inr q
      \<longrightarrow> (\<forall>ev. q ev \<longrightarrow> event.state ev = ''published'' \<and> event.state ev \<noteq> ''draft''))"
proof -
  have non_staff: "base_query c = (\<lambda>ev. event.state ev = ''published'')"
    if "current_user c = None \<or> (\<exists>u. current_user c = Some u \<and> \<not> is_staff u)"
    using that by (auto simp: base_query_def)
  have staff: "base_query c = (\<lambda>ev. True)" if "\<exists>u. current_user c = Some u \<and> is_staff u"
    using that by (auto simp: base_query_def)
  have anon: "event.state ev = ''published'' \<and> event.state ev \<noteq> ''draft''"
    if a: "current_user c = None \<and> unclassified vk \<and> EventList_query c database vk = Inr q"
    and q: "q ev" for ev
  proof -
  let ?scopes =
    "[ role_scope c database (view_kwargs.user_id vk) ''user_id'' (\<lambda>n. n \<noteq> ATTENDEE),
       role_scope c database (user_owner_id vk) ''user_owner_id'' (\<lambda>n. n = OWNER),
       role_scope c database (user_organizer_id vk) ''user_organizer_id''
         (\<lambda>n. n = ORGANIZER),
       role_scope c database (user_coorganizer_id vk) ''user_coorganizer_id''
         (\<lambda>n. n = COORGANIZER),
       role_scope c database (user_track_organizer_id vk) ''user_organizer_id''
         (\<lambda>n. n = TRACK_ORGANIZER),
       role_scope c database (user_registrar_id vk) ''user_registrar_id''
         (\<lambda>n. n = REGISTRAR),
       role_scope c database (user_moderator_id vk) ''user_moderator_id''
         (\<lambda>n. n = MODERATOR),
       role_scope c database (user_marketer_id vk) ''user_marketer_id''
         (\<lambda>n. n = MARKETER),
       role_scope c database (user_sales_admin_id vk) ''user_sales_admin_id''
         (\<lambda>n. n = SALES_ADMIN) ]"
  let ?rest =
    "[ classification_scope c (view_kwargs.event_type_id vk) event.event_type_id,
       classification_scope c (view_kwargs.event_topic_id vk) event.event_topic_id,
       classification_scope c (view_kwargs.event_sub_topic_id vk) event.event_sub_topic_id,
       discount_scope c database vk ]"
  have split: "EventList_query c database vk = run (?scopes @ ?rest) (default_query c database)"
    by (simp add: EventList_query_def)
  have rest: "run ?rest x = Inr x" for x
    using a
    by (simp add: unclassified_def classification_scope_absent discount_scope_absent)
  from a have "run (?scopes @ ?rest) (default_query c database) = Inr q"
    by (simp only: split)
  from run_append_Inr [OF this] obtain q1
    where "run ?scopes (default_query c database) = Inr q1" and "run ?rest q1 = Inr q"
    by blast
  then have "run ?scopes (default_query c database) = Inr q"
    by (simp only: rest)
  then have "default_query c database ev"
    using q by (rule run_role_scopes_restrict)
  then have "event.state ev = ''published''"
    using a by (simp add: default_query_def base_query_def)
  then show ?thesis
    by simp
  qed
  from non_staff staff anon show ?thesis
    by blast
qed

text \<open>
  The anonymous caller lists all events: only the published event 7 is selected.
\<close>

lemma anonymous_published_only_witness:
  "(\<exists>q. EventList_query anonymous database1 no_kwargs = Inr q
        \<and> fetch database1 q = [event7] \<and> event.state event7 = ''published'')
   \<and> base_query anonymous event7 \<and> \<not> base_query anonymous event8
   \<and> base_query admin event8"
proof -
  have u: "unscoped no_kwargs"
    by (simp add: unscoped_def unclassified_def no_kwargs_def)
  then have "EventList_query anonymous database1 no_kwargs = Inr (default_query anonymous database1)"
    by (simp add: EventList_query_def unscoped_def unclassified_def role_scope_absent
          classification_scope_absent discount_scope_absent)
  moreover have dq: "default_query anonymous database1 = (\<lambda>ev. event.state ev = ''published'')"
    by (simp add: default_query_def base_query_def anonymous_def)
  moreover have st: "event.state event7 = ''published'' \<and> event.state event8 = ''draft''
           \<and> event.state event9 = ''draft''"
    by (simp add: event7_def event8_def event9_def)
  moreover have "base_query anonymous = (\<lambda>ev. event.state ev = ''published'')"
    and "base_query admin = (\<lambda>ev. True)"
    using anonymous_published_only [of anonymous no_kwargs database1 "default_query anonymous database1"]
      anonymous_published_only [of admin no_kwargs database1 "default_query anonymous database1"]
    by (simp_all add: anonymous_def admin_def user1_def)
  ultimately show ?thesis
    by (simp add: fetch_database1)
qed

text \<open>
  C5. The result set of an anonymous caller must never contain a draft: the source says
  so itself at the first block (\<open>If user is not admin, we only show published events\<close>),
  the nine user blocks keep that filter by joining onto the query, and
  \<open>after_get_object\<close> hides drafts from the same callers. The classification blocks break
  it: they start a new query on the whole table. The anonymous caller lists the events of
  the event type 3, and the drafts 8 and 9 of that type are selected with the published
  event 7.
\<close>

theorem anonymous_sees_drafts_by_type:
  "EventList_query anonymous database1 (no_kwargs\<lparr>view_kwargs.event_type_id := Some 3\<rparr>)
     = Inr (\<lambda>ev. event.event_type_id ev = Some 3)
   \<and> fetch database1 (\<lambda>ev. event.event_type_id ev = Some 3) = [event7, event8, event9]
   \<and> event.state event8 = ''draft''"
  by (simp add: EventList_query_def role_scope_def classification_scope_def
        discount_scope_def no_kwargs_def anonymous_def fetch_database1 event7_def
        event8_def event9_def)

text \<open>
  C2, as the code has it. On a GET request scoped to one user key, for a target user who
  exists and whom the caller may view, the query is the query of the rules 1 and 2 (the
  caller's published-or-managed events) restricted to the events on which the target
  holds the role of the key (for the key \<open>user_id\<close>: any role but attendee). The join is
  made on the query built so far, so an event outside the caller's published-or-managed
  events is not selected. For a staff caller the rules 1 and 2 select every event, and the
  query is then the role filter alone.
\<close>

theorem user_scoping_restricts:
  assumes "sublist ''GET'' (request_method c)" and "v \<noteq> 0" and "is_user_itself c v"
    and "find (\<lambda>u. user.id' u = v) (users database) = Some u"
  shows "(unscoped (vk\<lparr>view_kwargs.user_id := None\<rparr>) \<and> view_kwargs.user_id vk = Some v
      \<longrightarrow> EventList_query c database vk =
            Inr (\<lambda>ev. default_query c database ev
                      \<and> holds_role database v (\<lambda>n. n \<noteq> ATTENDEE) ev))
   \<and> (unscoped (vk\<lparr>user_owner_id := None\<rparr>) \<and> user_owner_id vk = Some v
      \<longrightarrow> EventList_query c database vk =
            Inr (\<lambda>ev. default_query c database ev
                      \<and> holds_role database v (\<lambda>n. n = OWNER) ev))
   \<and> (unscoped (vk\<lparr>user_organizer_id := None\<rparr>) \<and> user_organizer_id vk = Some v
      \<longrightarrow> EventList_query c database vk =
            Inr (\<lambda>ev. default_query c database ev
                      \<and> holds_role database v (\<lambda>n. n = ORGANIZER) ev))
   \<and> (unscoped (vk\<lparr>user_coorganizer_id := None\<rparr>) \<and> user_coorganizer_id vk = Some v
      \<longrightarrow> EventList_query c database vk =
            Inr (\<lambda>ev. default_query c database ev
                      \<and> holds_role database v (\<lambda>n. n = COORGANIZER) ev))
   \<and> (unscoped (vk\<lparr>user_track_organizer_id := None\<rparr>) \<and> user_track_organizer_id vk = Some v
      \<longrightarrow> EventList_query c database vk =
            Inr (\<lambda>ev. default_query c database ev
                      \<and> holds_role database v (\<lambda>n. n = TRACK_ORGANIZER) ev))
   \<and> (unscoped (vk\<lparr>user_registrar_id := None\<rparr>) \<and> user_registrar_id vk = Some v
      \<longrightarrow> EventList_query c database vk =
            Inr (\<lambda>ev. default_query c database ev
                      \<and> holds_role database v (\<lambda>n. n = REGISTRAR) ev))
   \<and> (unscoped (vk\<lparr>user_moderator_id := None\<rparr>) \<and> user_moderator_id vk = Some v
      \<longrightarrow> EventList_query c database vk =
            Inr (\<lambda>ev. default_query c database ev
                      \<and> holds_role database v (\<lambda>n. n = MODERATOR) ev))
   \<and> (unscoped (vk\<lparr>user_marketer_id := None\<rparr>) \<and> user_marketer_id vk = Some v
      \<longrightarrow> EventList_query c database vk =
            Inr (\<lambda>ev. default_query c database ev
                      \<and> holds_role database v (\<lambda>n. n = MARKETER) ev))
   \<and> (unscoped (vk\<lparr>user_sales_admin_id := None\<rparr>) \<and> user_sales_admin_id vk = Some v
      \<longrightarrow> EventList_query c database vk =
            Inr (\<lambda>ev. default_query c database ev
                      \<and> holds_role database v (\<lambda>n. n = SALES_ADMIN) ev))
   \<and> ((\<exists>a. current_user c = Some a \<and> is_staff a) \<longrightarrow> default_query c database = (\<lambda>ev. True))"
proof -
  note present = role_scope_present [OF assms]
  note absent = role_scope_absent classification_scope_absent discount_scope_absent
  have staff: "default_query c database = (\<lambda>ev. True)"
    if "\<exists>a. current_user c = Some a \<and> is_staff a"
    using that by (auto simp: default_query_def base_query_def)
  have s1: "EventList_query c database vk =
      Inr (\<lambda>ev. default_query c database ev \<and> holds_role database v (\<lambda>n. n \<noteq> ATTENDEE) ev)"
    if "unscoped (vk\<lparr>view_kwargs.user_id := None\<rparr>) \<and> view_kwargs.user_id vk = Some v"
    using that
    by (simp add: EventList_query_def unscoped_def unclassified_def present absent)
  have s2: "EventList_query c database vk =
      Inr (\<lambda>ev. default_query c database ev \<and> holds_role database v (\<lambda>n. n = OWNER) ev)"
    if "unscoped (vk\<lparr>user_owner_id := None\<rparr>) \<and> user_owner_id vk = Some v"
    using that
    by (simp add: EventList_query_def unscoped_def unclassified_def present absent)
  have s3: "EventList_query c database vk =
      Inr (\<lambda>ev. default_query c database ev \<and> holds_role database v (\<lambda>n. n = ORGANIZER) ev)"
    if "unscoped (vk\<lparr>user_organizer_id := None\<rparr>) \<and> user_organizer_id vk = Some v"
    using that
    by (simp add: EventList_query_def unscoped_def unclassified_def present absent)
  have s4: "EventList_query c database vk =
      Inr (\<lambda>ev. default_query c database ev \<and> holds_role database v (\<lambda>n. n = COORGANIZER) ev)"
    if "unscoped (vk\<lparr>user_coorganizer_id := None\<rparr>) \<and> user_coorganizer_id vk = Some v"
    using that
    by (simp add: EventList_query_def unscoped_def unclassified_def present absent)
  have s5: "EventList_query c database vk =
      Inr (\<lambda>ev. default_query c database ev \<and> holds_role database v (\<lambda>n. n = TRACK_ORGANIZER) ev)"
    if "unscoped (vk\<lparr>user_track_organizer_id := None\<rparr>) \<and> user_track_organizer_id vk = Some v"
    using that
    by (simp add: EventList_query_def unscoped_def unclassified_def present absent)
  have s6: "EventList_query c database vk =
      Inr (\<lambda>ev. default_query c database ev \<and> holds_role database v (\<lambda>n. n = REGISTRAR) ev)"
    if "unscoped (vk\<lparr>user_registrar_id := None\<rparr>) \<and> user_registrar_id vk = Some v"
    using that
    by (simp add: EventList_query_def unscoped_def unclassified_def present absent)
  have s7: "EventList_query c database vk =
      Inr (\<lambda>ev. default_query c database ev \<and> holds_role database v (\<lambda>n. n = MODERATOR) ev)"
    if "unscoped (vk\<lparr>user_moderator_id := None\<rparr>) \<and> user_moderator_id vk = Some v"
    using that
    by (simp add: EventList_query_def unscoped_def unclassified_def present absent)
  have s8: "EventList_query c database vk =
      Inr (\<lambda>ev. default_query c database ev \<and> holds_role database v (\<lambda>n. n = MARKETER) ev)"
    if "unscoped (vk\<lparr>user_marketer_id := None\<rparr>) \<and> user_marketer_id vk = Some v"
    using that
    by (simp add: EventList_query_def unscoped_def unclassified_def present absent)
  have s9: "EventList_query c database vk =
      Inr (\<lambda>ev. default_query c database ev \<and> holds_role database v (\<lambda>n. n = SALES_ADMIN) ev)"
    if "unscoped (vk\<lparr>user_sales_admin_id := None\<rparr>) \<and> user_sales_admin_id vk = Some v"
    using that
    by (simp add: EventList_query_def unscoped_def unclassified_def present absent)
  from s1 s2 s3 s4 s5 s6 s7 s8 s9 staff show ?thesis
    by blast
qed

lemma registrar_database1:
  "holds_role database1 1 (\<lambda>n. n = REGISTRAR) ev \<longleftrightarrow> event.id' ev = 9"
  by (auto simp: holds_role_def database1_def)

lemma owner_database1:
  "holds_role database1 1 (\<lambda>n. n = OWNER) ev \<longleftrightarrow> event.id' ev = 8 \<or> event.id' ev = 7"
  by (auto simp: holds_role_def database1_def)

lemma default_query_caller1:
  "default_query caller1 database1 ev
     \<longleftrightarrow> event.state ev = ''published'' \<or> event.id' ev = 8 \<or> event.id' ev = 7"
  by (simp add: default_query_def base_query_def caller1_def user1_def manages_database1)

lemma events_database1:
  "event.id' event7 = 7 \<and> event.id' event8 = 8 \<and> event.id' event9 = 9
   \<and> event.state event7 = ''published'' \<and> event.state event8 = ''draft''
   \<and> event.state event9 = ''draft''"
  by (simp add: event7_def event8_def event9_def)

text \<open>
  User 1 lists the events they own: the published event 7 and the draft event 8.
\<close>

theorem user_scoping_restricts_witness:
  "(\<exists>q. EventList_query caller1 database1 (no_kwargs\<lparr>user_owner_id := Some 1\<rparr>) = Inr q
        \<and> fetch database1 q = [event7, event8])"
proof -
  have "sublist ''GET'' (request_method caller1)" and "is_user_itself caller1 1"
    and "find (\<lambda>u. user.id' u = 1) (users database1) = Some user1"
    and "unscoped (no_kwargs\<lparr>user_owner_id := Some 1, user_owner_id := None\<rparr>)"
    by (simp_all add: caller1_def database1_def user1_def unscoped_def unclassified_def
          no_kwargs_def)
  with user_scoping_restricts [of caller1 1 database1 user1 "no_kwargs\<lparr>user_owner_id := Some 1\<rparr>"]
  have "EventList_query caller1 database1 (no_kwargs\<lparr>user_owner_id := Some 1\<rparr>) =
          Inr (\<lambda>ev. default_query caller1 database1 ev
                    \<and> holds_role database1 1 (\<lambda>n. n = OWNER) ev)"
    by simp
  then show ?thesis
    by (simp add: fetch_database1 default_query_caller1 owner_database1 events_database1)
qed

text \<open>
  C2 as stated fails: user 1 is registrar of the draft event 9 and lists the events on
  which they are registrar. Event 9 is an event of the table on which the target holds
  that role, and the query selects no event.
\<close>

theorem registrar_draft_not_listed:
  "EventList_query caller1 database1 (no_kwargs\<lparr>user_registrar_id := Some 1\<rparr>)
     = Inr (\<lambda>ev. default_query caller1 database1 ev
                 \<and> holds_role database1 1 (\<lambda>n. n = REGISTRAR) ev)
   \<and> fetch database1 (\<lambda>ev. default_query caller1 database1 ev
                           \<and> holds_role database1 1 (\<lambda>n. n = REGISTRAR) ev) = []
   \<and> event9 \<in> set (events database1)
   \<and> holds_role database1 1 (\<lambda>n. n = REGISTRAR) event9"
proof -
  have "EventList_query caller1 database1 (no_kwargs\<lparr>user_registrar_id := Some 1\<rparr>)
     = Inr (\<lambda>ev. default_query caller1 database1 ev
                 \<and> holds_role database1 1 (\<lambda>n. n = REGISTRAR) ev)"
    by (simp add: EventList_query_def role_scope_def classification_scope_def
          discount_scope_def safe_query_def no_kwargs_def caller1_def database1_def
          user1_def)
  moreover have "event9 \<in> set (events database1)"
    by (simp add: database1_def)
  ultimately show ?thesis
    by (simp add: fetch_database1 default_query_caller1 registrar_database1 events_database1)
qed

section \<open>Owner resolver: properties\<close>

text \<open>
  The blocks of the shape \<open>id_branch\<close>, the most common one: a key that is present and
  names no row raises \<open>ObjectNotFound\<close> with the key's parameter name, and a row without
  an owning event gives the owner \<open>None\<close>.
\<close>

lemma id_branch_not_found:
  assumes "key vk = Some v" and "find (\<lambda>x. owned.id' x = v) (rows database m) = None"
  shows "id_branch database m key parameter_name vk = Inl (ObjectNotFound parameter_name None)"
  using assms by (simp add: id_branch_def safe_query_def)

lemma id_branch_owner:
  assumes "key vk = Some v" and "find (\<lambda>x. owned.id' x = v) (rows database m) = Some x"
  shows "id_branch database m key parameter_name vk =
           Inr (vk\<lparr>view_kwargs.id' := store (owned.event_id x)\<rparr>)"
  using assms
  by (cases "owned.event_id x") (simp_all add: id_branch_def safe_query_def set_owner_def)

text \<open>
  C3 fails in the block of \<open>users_events_role_id\<close>, which has no \<open>else\<close>: the role
  assignment 3 exists and has no event, and \<open>get_id\<close> leaves the owner as it was. Alone,
  the key \<open>id\<close> stays missing; after the sponsor 5 of event 7, it stays 7.
\<close>

theorem users_events_role_orphan_keeps_owner:
  "get_id database1 (no_kwargs\<lparr>users_events_role_id := Some 3\<rparr>)
     = Inr (no_kwargs\<lparr>users_events_role_id := Some 3\<rparr>)
   \<and> view_kwargs.id' (no_kwargs\<lparr>users_events_role_id := Some 3\<rparr>) = Missing
   \<and> get_id database1 (no_kwargs\<lparr>sponsor_id := Some 5, users_events_role_id := Some 3\<rparr>)
     = Inr (no_kwargs\<lparr>sponsor_id := Some 5, users_events_role_id := Some 3,
                      view_kwargs.id' := Value 7\<rparr>)"
  by (simp add: get_id_def identifier_branch_def id_branch_def alt_key_branch_def
        user_id_branch_def users_events_role_branch_def truthy_one_branch_def
        attendee_branch_def safe_query_def set_owner_def no_kwargs_def database1_def)

end
